theory Spec2Isabelle
  imports Complex_Main
begin

section \<open>Data model of \<^verbatim>\<open>rbac_pinecone_demo.py\<close>\<close>

text \<open>
  The three dataclasses of the source. Python's \<^verbatim>\<open>int\<close> is \<^typ>\<open>int\<close>, \<^verbatim>\<open>str\<close> is
  \<^typ>\<open>string\<close>, an attribute defaulting to \<^verbatim>\<open>None\<close> is an option. The \<^verbatim>\<open>float\<close> fields
  (\<^verbatim>\<open>price\<close>, \<^verbatim>\<open>total\<close>) and the \<^verbatim>\<open>datetime\<close> field are only stored and copied, never
  computed with, so they are carried as \<^typ>\<open>real\<close> and \<^typ>\<open>nat\<close>. The attribute \<^verbatim>\<open>id\<close> of
  each class is written \<open>u_id\<close>, \<open>p_id\<close>, \<open>o_id\<close>, the attributes \<^verbatim>\<open>Order.products\<close> and
  \<^verbatim>\<open>Order.total\<close> are \<open>o_products\<close> and \<open>o_total\<close>; the other attributes keep their names.
\<close>

record User =
  u_id :: int
  username :: string
  role :: string
  api_key :: "string option"

record Product =
  p_id :: int
  name :: string
  price :: real
  stock :: int
  description :: string
  vector_id :: "string option"

record Order =
  o_id :: int
  user_id :: int
  o_products :: "int list"
  o_total :: real
  status :: string
  created_at :: nat

subsection \<open>Python dictionaries with insertion order\<close>

text \<open>
  A \<^verbatim>\<open>dict\<close> whose values are enumerated (\<^verbatim>\<open>.values()\<close>) is an association list with
  distinct keys in insertion order: storing under a key that is present replaces the value
  in place, storing under a new key appends. \<open>dict_of\<close> is the comprehension
  \<^verbatim>\<open>{x.id: x for x in xs}\<close>.
\<close>

type_synonym ('k, 'v) dict = "('k \<times> 'v) list"

fun dict_set :: "'k \<Rightarrow> 'v \<Rightarrow> ('k, 'v) dict \<Rightarrow> ('k, 'v) dict" where
  "dict_set k v [] = [(k, v)]"
| "dict_set k v ((k', v') # d) = (if k' = k then (k, v) # d else (k', v') # dict_set k v d)"

definition dict_get :: "('k, 'v) dict \<Rightarrow> 'k \<Rightarrow> 'v option" where
  "dict_get d k = map_of d k"

definition dict_values :: "('k, 'v) dict \<Rightarrow> 'v list" where
  "dict_values d = map snd d"

definition dict_of :: "('v \<Rightarrow> 'k) \<Rightarrow> 'v list \<Rightarrow> ('k, 'v) dict" where
  "dict_of key xs = foldl (\<lambda>d x. dict_set (key x) x d) [] xs"

section \<open>The permission registry: class \<^verbatim>\<open>RBACSystem\<close>\<close>

text \<open>
  \<^verbatim>\<open>role_permissions\<close> is a dict from role name to a Python set of permission names. Its
  keys are never enumerated, so it is a map into sets.
\<close>

record RBACSystem =
  role_permissions :: "string \<rightharpoonup> string set"

definition RBACSystem_init :: RBACSystem where
  "RBACSystem_init = \<lparr> role_permissions = Map.empty(
     ''customer'' \<mapsto> {''view_products'', ''view_own_orders'', ''place_order'',
        ''vector_search_basic''},
     ''sales_rep'' \<mapsto> {''view_products'', ''view_all_orders'', ''update_order_status'',
        ''view_customer_info'', ''vector_search_basic'', ''vector_search_advanced''},
     ''data_scientist'' \<mapsto> {''view_products'', ''vector_search_basic'',
        ''vector_search_advanced'', ''vector_create'', ''vector_delete'', ''vector_update''},
     ''admin'' \<mapsto> {''view_products'', ''update_product_stock'', ''view_all_orders'',
        ''update_order_status'', ''view_customer_info'', ''manage_users'', ''place_order'',
        ''vector_search_basic'', ''vector_search_advanced'', ''vector_create'',
        ''vector_delete'', ''vector_update'', ''vector_manage_index''}) \<rparr>"

text \<open>
  \<^verbatim>\<open>if user.role not in self.role_permissions: return False\<close>, then
  \<^verbatim>\<open>return permission in self.role_permissions[user.role]\<close>.
\<close>

definition has_permission :: "RBACSystem \<Rightarrow> User \<Rightarrow> string \<Rightarrow> bool" where
  "has_permission rbac user permission =
     (case role_permissions rbac (role user) of
        None \<Rightarrow> False
      | Some perms \<Rightarrow> permission \<in> perms)"

text \<open>\<^verbatim>\<open>return self.role_permissions.get(user.role, set())\<close>.\<close>

definition get_user_permissions :: "RBACSystem \<Rightarrow> User \<Rightarrow> string set" where
  "get_user_permissions rbac user =
     (case role_permissions rbac (role user) of
        None \<Rightarrow> {}
      | Some perms \<Rightarrow> perms)"

text \<open>
  The script's statement \<^verbatim>\<open>rbac.role_permissions[r] = perms\<close> (lines 573 and 581): a
  dict item assignment.
\<close>

definition define_role :: "string \<Rightarrow> string set \<Rightarrow> RBACSystem \<Rightarrow> RBACSystem" where
  "define_role r perms rbac = rbac\<lparr> role_permissions := (role_permissions rbac)(r \<mapsto> perms) \<rparr>"

text \<open>The script's statement \<^verbatim>\<open>user.role = r\<close> (lines 598 and 601).\<close>

definition set_role :: "string \<Rightarrow> User \<Rightarrow> User" where
  "set_role r user = user\<lparr> role := r \<rparr>"

text \<open>
  Modelled from the spec: \<^verbatim>\<open>grant(role, permission)\<close>, which the source does not have (it
  only ever assigns whole sets). The spec's words: "adds one permission to an existing (or
  newly created) role's set; no-op if already present". On the source's representation
  that is \<^verbatim>\<open>rbac.role_permissions.setdefault(role, set()).add(permission)\<close>.
\<close>

definition grant :: "string \<Rightarrow> string \<Rightarrow> RBACSystem \<Rightarrow> RBACSystem" where
  "grant r permission rbac =
     rbac\<lparr> role_permissions := (role_permissions rbac)
       (r \<mapsto> insert permission (case role_permissions rbac r of None \<Rightarrow> {} | Some perms \<Rightarrow> perms)) \<rparr>"

section \<open>External collaborators\<close>

text \<open>
  The embedding encoder (\<^verbatim>\<open>model\<close>) and the vector store (\<^verbatim>\<open>products_index\<close>) are opaque
  services. Each is given by what it answers to one call: a value, or an exception, which
  the facades catch with \<^verbatim>\<open>except Exception\<close> and turn into text with \<^verbatim>\<open>str(e)\<close>. A
  facade method calls each service at most once, so a function of the arguments is enough.
  Every call a method issues is recorded, in order, in the list of \<open>ext_call\<close> it returns.
  Console output (\<^verbatim>\<open>print\<close>) is not a collaborator call and is left out.
\<close>

text \<open>
  The exceptions the facades catch. A failure of a collaborator is given by its text
  \<^verbatim>\<open>str(e)\<close>. The code itself raises only \<^verbatim>\<open>KeyError\<close> for one of the three metadata keys
  it subscripts; \<^verbatim>\<open>str(KeyError(k))\<close> is \<^verbatim>\<open>repr(k)\<close>, which for these three keys is the key
  between single quotes.
\<close>

datatype metadata_key = NameKey | PriceKey | DescriptionKey

fun key_text :: "metadata_key \<Rightarrow> string" where
  "key_text NameKey = ''name''"
| "key_text PriceKey = ''price''"
| "key_text DescriptionKey = ''description''"

datatype caught = MissingKey metadata_key | Failure string

fun str_of :: "caught \<Rightarrow> string" where
  "str_of (MissingKey k) = [CHR 0x27] @ key_text k @ [CHR 0x27]"
| "str_of (Failure msg) = msg"

datatype meta_value = MStr string | MNum real

type_synonym metadata = "(string, meta_value) dict"

record Match =
  m_id :: string
  score :: real
  m_metadata :: metadata

record Encoder =
  encode :: "string \<Rightarrow> caught + real list"

record VectorIndex =
  query :: "real list \<Rightarrow> int \<Rightarrow> caught + Match list"
  upsert :: "(string \<times> real list \<times> metadata) list \<Rightarrow> caught + unit"

datatype ext_call =
    ModelEncode string
  | IndexQuery "real list" int
  | IndexUpsert "(string \<times> real list \<times> metadata) list"

section \<open>The facades\<close>

text \<open>
  The facades return lists whose elements are either a message (a \<^verbatim>\<open>str\<close>) or a dict of
  one of three shapes; \<open>item\<close> is that union.
\<close>

datatype item =
    Str string
  | ProductDict int string real int
  | OrderDict int real string "string list"
  | HitDict meta_value meta_value meta_value real string

datatype py_error = KeyError int

record ECommerceSystem =
  rbac :: RBACSystem
  users :: "(int, User) dict"
  products :: "(int, Product) dict"
  orders :: "(int, Order) dict"
  vector_index :: VectorIndex

definition ECommerceSystem_init ::
  "RBACSystem \<Rightarrow> User list \<Rightarrow> Product list \<Rightarrow> Order list \<Rightarrow> VectorIndex \<Rightarrow> ECommerceSystem" where
  "ECommerceSystem_init r us ps os idx =
     \<lparr> rbac = r, users = dict_of u_id us, products = dict_of p_id ps,
       orders = dict_of o_id os, vector_index = idx \<rparr>"

definition view_products :: "ECommerceSystem \<Rightarrow> User \<Rightarrow> item list" where
  "view_products sys user =
     (if \<not> has_permission (rbac sys) user ''view_products''
      then [Str ''Access Denied: No permission to view products'']
      else map (\<lambda>p. ProductDict (p_id p) (name p) (price p) (stock p))
             (dict_values (products sys)))"

text \<open>
  \<^verbatim>\<open>[self.products[pid].name for pid in order.products]\<close>: the subscript raises
  \<^verbatim>\<open>KeyError\<close> at the first product id that is not a key of the product store.
\<close>

fun product_names :: "(int, Product) dict \<Rightarrow> int list \<Rightarrow> py_error + string list" where
  "product_names ps [] = Inr []"
| "product_names ps (pid # pids) =
     (case dict_get ps pid of
        None \<Rightarrow> Inl (KeyError pid)
      | Some p \<Rightarrow>
          (case product_names ps pids of
             Inl e \<Rightarrow> Inl e
           | Inr ns \<Rightarrow> Inr (name p # ns)))"

text \<open>The dict literal built for one order, in both branches of \<^verbatim>\<open>view_orders\<close>.\<close>

definition order_dict :: "ECommerceSystem \<Rightarrow> Order \<Rightarrow> py_error + item" where
  "order_dict sys order =
     (case product_names (products sys) (o_products order) of
        Inl e \<Rightarrow> Inl e
      | Inr ns \<Rightarrow> Inr (OrderDict (o_id order) (o_total order) (status order) ns))"

fun order_dicts :: "ECommerceSystem \<Rightarrow> Order list \<Rightarrow> py_error + item list" where
  "order_dicts sys [] = Inr []"
| "order_dicts sys (order # rest) =
     (case order_dict sys order of
        Inl e \<Rightarrow> Inl e
      | Inr d \<Rightarrow>
          (case order_dicts sys rest of
             Inl e \<Rightarrow> Inl e
           | Inr ds \<Rightarrow> Inr (d # ds)))"

text \<open>
  \<^verbatim>\<open>view_orders(user, order_id=None)\<close>. An \<^verbatim>\<open>Order\<close> object is always truthy, so
  \<^verbatim>\<open>if not order\<close> is the test for \<^verbatim>\<open>None\<close>, that is for an absent key.
\<close>

definition view_orders :: "ECommerceSystem \<Rightarrow> User \<Rightarrow> int option \<Rightarrow> py_error + item list" where
  "view_orders sys user order_id =
     (if \<not> (has_permission (rbac sys) user ''view_all_orders'' \<or>
              has_permission (rbac sys) user ''view_own_orders'')
      then Inr [Str ''Access Denied: No permission to view orders'']
      else
        (case order_id of
           Some oid \<Rightarrow>
             (case dict_get (orders sys) oid of
                None \<Rightarrow> Inr [Str ''Order not found'']
              | Some order \<Rightarrow>
                  if \<not> has_permission (rbac sys) user ''view_all_orders'' \<and>
                     user_id order \<noteq> u_id user
                  then Inr [Str ''Access Denied: Can only view your own orders'']
                  else
                    (case order_dict sys order of
                       Inl e \<Rightarrow> Inl e
                     | Inr d \<Rightarrow> Inr [d]))
         | None \<Rightarrow>
             order_dicts sys
               (if has_permission (rbac sys) user ''view_all_orders''
                then dict_values (orders sys)
                else filter (\<lambda>ord. user_id ord = u_id user) (dict_values (orders sys)))))"

text \<open>
  One formatted result of \<^verbatim>\<open>vector_search\<close>: the subscripts \<^verbatim>\<open>match.metadata["name"]\<close>,
  \<^verbatim>\<open>["price"]\<close>, \<^verbatim>\<open>["description"]\<close> are evaluated in this order and raise \<^verbatim>\<open>KeyError\<close>
  on a missing key.
\<close>

definition format_match :: "Match \<Rightarrow> caught + item" where
  "format_match m =
     (case dict_get (m_metadata m) (key_text NameKey) of
        None \<Rightarrow> Inl (MissingKey NameKey)
      | Some n \<Rightarrow>
          (case dict_get (m_metadata m) (key_text PriceKey) of
             None \<Rightarrow> Inl (MissingKey PriceKey)
           | Some pr \<Rightarrow>
               (case dict_get (m_metadata m) (key_text DescriptionKey) of
                  None \<Rightarrow> Inl (MissingKey DescriptionKey)
                | Some d \<Rightarrow> Inr (HitDict n pr d (score m) (m_id m)))))"

fun format_matches :: "Match list \<Rightarrow> caught + item list" where
  "format_matches [] = Inr []"
| "format_matches (m # ms) =
     (case format_match m of
        Inl e \<Rightarrow> Inl e
      | Inr h \<Rightarrow>
          (case format_matches ms of
             Inl e \<Rightarrow> Inl e
           | Inr hs \<Rightarrow> Inr (h # hs)))"

text \<open>
  \<^verbatim>\<open>vector_search(user, query, top_k)\<close>, with the module's \<^verbatim>\<open>model\<close> as first argument.
  The result is the returned list and the collaborator calls issued. The whole body after
  the permission test is inside \<^verbatim>\<open>try ... except Exception\<close>.
\<close>

definition vector_search ::
  "Encoder \<Rightarrow> ECommerceSystem \<Rightarrow> User \<Rightarrow> string \<Rightarrow> int \<Rightarrow> item list \<times> ext_call list" where
  "vector_search model sys user q top_k =
     (if \<not> (has_permission (rbac sys) user ''vector_search_basic'' \<or>
              has_permission (rbac sys) user ''vector_search_advanced'')
      then ([Str ''Access Denied: No permission to perform vector search''], [])
      else
        (case encode model q of
           Inl e \<Rightarrow> ([Str (''Error performing vector search: '' @ str_of e)], [ModelEncode q])
         | Inr query_embedding \<Rightarrow>
             (case query (vector_index sys) query_embedding top_k of
                Inl e \<Rightarrow>
                  ([Str (''Error performing vector search: '' @ str_of e)],
                   [ModelEncode q, IndexQuery query_embedding top_k])
              | Inr matches \<Rightarrow>
                  if matches = [] then ([], [ModelEncode q, IndexQuery query_embedding top_k])
                  else
                    (case format_matches matches of
                       Inl e \<Rightarrow>
                         ([Str (''Error performing vector search: '' @ str_of e)],
                          [ModelEncode q, IndexQuery query_embedding top_k])
                     | Inr formatted_results \<Rightarrow>
                         (formatted_results,
                          [ModelEncode q, IndexQuery query_embedding top_k])))))"

record InventoryManagement =
  inv_rbac :: RBACSystem
  inv_products :: "(int, Product) dict"

definition InventoryManagement_init :: "RBACSystem \<Rightarrow> Product list \<Rightarrow> InventoryManagement" where
  "InventoryManagement_init r ps = \<lparr> inv_rbac = r, inv_products = dict_of p_id ps \<rparr>"

text \<open>
  \<^verbatim>\<open>update_stock(user, product_id, new_stock)\<close> returns its message and the facade after
  the call. The assignment \<^verbatim>\<open>self.products[product_id].stock = new_stock\<close> changes one
  attribute of the object stored under the key; the dict keeps its keys and their order.
\<close>

definition update_stock ::
  "InventoryManagement \<Rightarrow> User \<Rightarrow> int \<Rightarrow> int \<Rightarrow> string \<times> InventoryManagement" where
  "update_stock im user product_id new_stock =
     (if \<not> has_permission (inv_rbac im) user ''update_product_stock''
      then (''Access Denied: No permission to update stock'', im)
      else
        (case dict_get (inv_products im) product_id of
           None \<Rightarrow> (''Product not found'', im)
         | Some p \<Rightarrow>
             (''Stock updated successfully for '' @ name p,
              im\<lparr> inv_products :=
                     dict_set product_id (p\<lparr> stock := new_stock \<rparr>) (inv_products im) \<rparr>)))"

record VectorManagement =
  vm_rbac :: RBACSystem
  vm_vector_index :: VectorIndex

text \<open>
  \<^verbatim>\<open>create_vector(user, data, metadata)\<close>, with the module's \<^verbatim>\<open>model\<close> and the string
  \<^verbatim>\<open>str(uuid4())\<close> the call draws as further arguments.
\<close>

definition create_vector ::
  "Encoder \<Rightarrow> string \<Rightarrow> VectorManagement \<Rightarrow> User \<Rightarrow> string \<Rightarrow> metadata \<Rightarrow> string \<times> ext_call list" where
  "create_vector model uuid vm user data md =
     (if \<not> has_permission (vm_rbac vm) user ''vector_create''
      then (''Access Denied: No permission to create vectors'', [])
      else
        (case encode model data of
           Inl e \<Rightarrow> (''Error creating vector: '' @ str_of e, [ModelEncode data])
         | Inr embedding \<Rightarrow>
             (case upsert (vm_vector_index vm) [(uuid, embedding, md)] of
                Inl e \<Rightarrow>
                  (''Error creating vector: '' @ str_of e,
                   [ModelEncode data, IndexUpsert [(uuid, embedding, md)]])
              | Inr _ \<Rightarrow>
                  (''Vector created successfully with ID: '' @ uuid,
                   [ModelEncode data, IndexUpsert [(uuid, embedding, md)]]))))"

section \<open>The script: role promotion and role definition at run time\<close>

text \<open>
  Section 5 of the script changes the registry and the users between calls of the
  facades: \<^verbatim>\<open>rbac.role_permissions[r] = {...}\<close>, \<^verbatim>\<open>bob.role = r\<close>, and then calls that reach
  \<^verbatim>\<open>rbac.has_permission(user, p)\<close>. A session is the registry and the user objects (by
  reference); a statement changes one of them or asks for a decision, and \<open>run\<close> returns
  the decisions in the order in which they were made.
\<close>

datatype stmt =
    AssignRole nat string
  | AssignPermissions string "string set"
  | HasPermission nat string

record session =
  s_rbac :: RBACSystem
  s_users :: "nat \<Rightarrow> User"

fun exec :: "session \<Rightarrow> stmt \<Rightarrow> session \<times> bool list" where
  "exec s (AssignRole a r) = (s\<lparr> s_users := (s_users s)(a := set_role r (s_users s a)) \<rparr>, [])"
| "exec s (AssignPermissions r perms) = (s\<lparr> s_rbac := define_role r perms (s_rbac s) \<rparr>, [])"
| "exec s (HasPermission a p) = (s, [has_permission (s_rbac s) (s_users s a) p])"

fun run :: "session \<Rightarrow> stmt list \<Rightarrow> session \<times> bool list" where
  "run s [] = (s, [])"
| "run s (c # cs) =
     (case exec s c of (s', d) \<Rightarrow> (case run s' cs of (s'', ds) \<Rightarrow> (s'', d @ ds)))"

section \<open>The demo data of the script\<close>

text \<open>
  The users, products and orders of section 2 (descriptions shortened; the vector ids are
  drawn by \<^verbatim>\<open>uuid4\<close> in the script and fixed here), and one encoder and one vector store
  that answer every call.
\<close>

definition alice :: User where
  "alice = \<lparr> u_id = 1, username = ''alice'', role = ''customer'', api_key = None \<rparr>"

definition bob :: User where
  "bob = \<lparr> u_id = 2, username = ''bob'', role = ''sales_rep'', api_key = None \<rparr>"

definition carol :: User where
  "carol = \<lparr> u_id = 3, username = ''carol'', role = ''data_scientist'', api_key = None \<rparr>"

definition david :: User where
  "david = \<lparr> u_id = 4, username = ''david'', role = ''admin'', api_key = None \<rparr>"

definition demo_products :: "Product list" where
  "demo_products =
     [\<lparr> p_id = 1, name = ''Gaming Laptop'', price = 999.99, stock = 50,
        description = ''High-performance gaming laptop'', vector_id = Some ''v1'' \<rparr>,
      \<lparr> p_id = 2, name = ''Smartphone Pro'', price = 599.99, stock = 100,
        description = ''Latest flagship smartphone'', vector_id = Some ''v2'' \<rparr>,
      \<lparr> p_id = 3, name = ''Wireless Headphones'', price = 99.99, stock = 200,
        description = ''Premium wireless headphones'', vector_id = Some ''v3'' \<rparr>]"

definition demo_orders :: "Order list" where
  "demo_orders =
     [\<lparr> o_id = 1, user_id = 1, o_products = [1, 3], o_total = 1099.98, status = ''pending'',
        created_at = 0 \<rparr>,
      \<lparr> o_id = 2, user_id = 1, o_products = [2], o_total = 599.99, status = ''completed'',
        created_at = 0 \<rparr>]"

definition demo_model :: Encoder where
  "demo_model = \<lparr> encode = (\<lambda>text. Inr [1, 0]) \<rparr>"

definition demo_index :: VectorIndex where
  "demo_index =
     \<lparr> query = (\<lambda>v k. Inr [\<lparr> m_id = ''v1'', score = 1,
          m_metadata = [(''name'', MStr ''Gaming Laptop''), (''price'', MNum 999.99),
            (''description'', MStr ''High-performance gaming laptop'')] \<rparr>]),
       upsert = (\<lambda>vs. Inr ()) \<rparr>"

definition system :: ECommerceSystem where
  "system = ECommerceSystem_init RBACSystem_init [alice, bob, carol, david] demo_products
     demo_orders demo_index"

definition inventory :: InventoryManagement where
  "inventory = InventoryManagement_init RBACSystem_init demo_products"

definition vector_mgmt :: VectorManagement where
  "vector_mgmt = \<lparr> vm_rbac = RBACSystem_init, vm_vector_index = demo_index \<rparr>"

text \<open>The role the script adds at line 573; it holds no vector search permission.\<close>

definition senior_sales_rep_permissions :: "string set" where
  "senior_sales_rep_permissions =
     {''view_products'', ''view_all_orders'', ''update_order_status'', ''view_customer_info'',
      ''update_product_stock''}"

text \<open>
  A system whose only order lists product 7, with an empty product store: the constructor
  takes the two lists as they come and checks nothing.
\<close>

definition dangling_system :: ECommerceSystem where
  "dangling_system = ECommerceSystem_init RBACSystem_init [david] []
     [\<lparr> o_id = 1, user_id = 1, o_products = [7], o_total = 5, status = ''pending'',
        created_at = 0 \<rparr>] demo_index"

text \<open>
  The demo system after the script has added \<^verbatim>\<open>senior_sales_rep\<close>, with one more role that
  holds \<^verbatim>\<open>vector_search_basic\<close> and nothing else.
\<close>

definition searcher_system :: ECommerceSystem where
  "searcher_system = system\<lparr> rbac :=
     define_role ''searcher'' {''vector_search_basic''}
       (define_role ''senior_sales_rep'' senior_sales_rep_permissions RBACSystem_init) \<rparr>"

text \<open>
  The session the script starts from: the initial registry and the four users, by their
  position in the list \<^verbatim>\<open>users\<close>.
\<close>

definition demo_session :: session where
  "demo_session = \<lparr> s_rbac = RBACSystem_init, s_users = (\<lambda>a. [alice, bob, carol, david] ! a) \<rparr>"

section \<open>Helper lemmas\<close>

lemma dict_get_dict_set:
  "dict_get (dict_set k v d) k' = (if k' = k then Some v else dict_get d k')"
  by (induction d) (auto simp: dict_get_def)

lemma keys_dict_set_present:
  "dict_get d k = Some v' \<Longrightarrow> map fst (dict_set k v d) = map fst d"
  by (induction d) (auto simp: dict_get_def split: if_splits)

lemma product_names_all_present:
  "\<forall>pid \<in> set pids. dict_get ps pid \<noteq> None \<Longrightarrow>
   product_names ps pids = Inr (map (\<lambda>pid. name (the (dict_get ps pid))) pids)"
  by (induction pids) (auto split: option.splits)

lemma order_dict_all_present:
  "\<forall>pid \<in> set (o_products order). dict_get (products sys) pid \<noteq> None \<Longrightarrow>
   order_dict sys order =
     Inr (OrderDict (o_id order) (o_total order) (status order)
            (map (\<lambda>pid. name (the (dict_get (products sys) pid))) (o_products order)))"
  by (simp add: order_dict_def product_names_all_present)

lemma order_dict_not_Str: "order_dict sys order \<noteq> Inr (Str msg)"
  by (simp add: order_dict_def split: sum.splits)

lemmas demo_eval = system_def ECommerceSystem_init_def dict_of_def dict_get_def
  RBACSystem_init_def demo_orders_def demo_products_def has_permission_def set_role_def

lemma format_matches_head:
  "format_matches ms = Inr rs \<Longrightarrow> ms \<noteq> [] \<Longrightarrow> \<exists>a b c d e t. rs = HitDict a b c d e # t"
  by (cases ms) (auto simp: format_match_def split: sum.splits option.splits)

lemma format_matches_not_denial:
  "ms \<noteq> [] \<Longrightarrow> format_matches ms \<noteq> Inr [Str msg]"
  using format_matches_head [of ms "[Str msg]"] by auto

lemma run_append:
  "run s (xs @ ys) =
     (case run s xs of (s', ds) \<Rightarrow> (case run s' ys of (s'', ds') \<Rightarrow> (s'', ds @ ds')))"
  by (induction xs arbitrary: s) (auto split: prod.splits)

section \<open>The claims\<close>

text \<open>
  C1. \<open>has_permission\<close> answers true exactly when the user's role is a key of
  \<open>role_permissions\<close> and the permission is a member of that role's set. For a role that
  is not a key, \<open>get_user_permissions\<close> is the empty set and \<open>has_permission\<close> is false for
  every permission. Both are total functions into \<open>bool\<close> and sets: there is no error
  result.
\<close>

theorem has_permission_iff_role_defined_and_member:
  "has_permission reg user permission =
     (role user \<in> dom (role_permissions reg) \<and>
      permission \<in> the (role_permissions reg (role user)))
   \<and> (role user \<notin> dom (role_permissions reg) \<longrightarrow>
        get_user_permissions reg user = {} \<and> (\<forall>p. \<not> has_permission reg user p))"
  by (auto simp: has_permission_def get_user_permissions_def split: option.splits)

theorem has_permission_iff_role_defined_and_member_witness:
  "role (set_role ''intern'' alice) \<notin> dom (role_permissions RBACSystem_init)
   \<and> get_user_permissions RBACSystem_init (set_role ''intern'' alice) = {}
   \<and> \<not> has_permission RBACSystem_init (set_role ''intern'' alice) ''view_products''
   \<and> has_permission RBACSystem_init alice ''view_products''"
  using has_permission_iff_role_defined_and_member
    [of RBACSystem_init "set_role ''intern'' alice" "''view_products''"]
    has_permission_iff_role_defined_and_member [of RBACSystem_init alice "''view_products''"]
  by (simp add: RBACSystem_init_def alice_def set_role_def)

text \<open>
  C2, as stated, fails: for an existing order that lists a product id which is not a key
  of the product store, a caller holding \<^verbatim>\<open>view_all_orders\<close> gets no details, the lookup
  \<^verbatim>\<open>self.products[pid]\<close> raises \<^verbatim>\<open>KeyError\<close>.
\<close>

theorem view_orders_dangling_product_counterexample:
  "has_permission (rbac dangling_system) david ''view_all_orders''
   \<and> dict_get (orders dangling_system) 1 =
       Some \<lparr> o_id = 1, user_id = 1, o_products = [7], o_total = 5, status = ''pending'',
         created_at = 0 \<rparr>
   \<and> view_orders dangling_system david (Some 1) = Inl (KeyError 7)"
  by (simp add: dangling_system_def ECommerceSystem_init_def dict_of_def dict_get_def
      RBACSystem_init_def david_def has_permission_def view_orders_def order_dict_def)

text \<open>
  C2, amended: single-order lookup of an existing order. A caller holding
  \<^verbatim>\<open>view_all_orders\<close> gets the order's details whoever owns it, and a caller without it who
  holds \<^verbatim>\<open>view_own_orders\<close> and owns the order gets the details, both provided that every
  product id the order lists is a key of the product store. A caller holding
  \<^verbatim>\<open>view_own_orders\<close> but not \<^verbatim>\<open>view_all_orders\<close> who does not own the order gets the
  ownership denial, whatever the order lists: the denial is returned before any product
  is looked up.
\<close>

theorem view_orders_single_order_ownership:
  assumes "dict_get (orders sys) oid = Some order"
  shows "((\<forall>pid \<in> set (o_products order). dict_get (products sys) pid \<noteq> None) \<longrightarrow>
          (has_permission (rbac sys) user ''view_all_orders'' \<longrightarrow>
            view_orders sys user (Some oid) =
              Inr [OrderDict (o_id order) (o_total order) (status order)
                     (map (\<lambda>pid. name (the (dict_get (products sys) pid))) (o_products order))])
        \<and> (\<not> has_permission (rbac sys) user ''view_all_orders'' \<and>
           has_permission (rbac sys) user ''view_own_orders'' \<and> user_id order = u_id user \<longrightarrow>
            view_orders sys user (Some oid) =
              Inr [OrderDict (o_id order) (o_total order) (status order)
                     (map (\<lambda>pid. name (the (dict_get (products sys) pid))) (o_products order))]))
       \<and> (has_permission (rbac sys) user ''view_own_orders'' \<and> user_id order \<noteq> u_id user \<and>
          \<not> has_permission (rbac sys) user ''view_all_orders'' \<longrightarrow>
            view_orders sys user (Some oid) =
              Inr [Str ''Access Denied: Can only view your own orders''])"
proof -
  have details:
    "view_orders sys user (Some oid) =
       Inr [OrderDict (o_id order) (o_total order) (status order)
              (map (\<lambda>pid. name (the (dict_get (products sys) pid))) (o_products order))]"
    if present: "\<forall>pid \<in> set (o_products order). dict_get (products sys) pid \<noteq> None"
      and allowed: "has_permission (rbac sys) user ''view_all_orders'' \<or>
        (has_permission (rbac sys) user ''view_own_orders'' \<and> user_id order = u_id user)"
    using assms allowed by (auto simp: view_orders_def order_dict_all_present [OF present])
  have denial:
    "view_orders sys user (Some oid) = Inr [Str ''Access Denied: Can only view your own orders'']"
    if "has_permission (rbac sys) user ''view_own_orders''" "user_id order \<noteq> u_id user"
      "\<not> has_permission (rbac sys) user ''view_all_orders''"
    using assms that by (simp add: view_orders_def)
  from details denial show ?thesis by blast
qed

theorem view_orders_single_order_ownership_witness:
  "view_orders system alice (Some 1) =
     Inr [OrderDict 1 1099.98 ''pending'' [''Gaming Laptop'', ''Wireless Headphones'']]
   \<and> view_orders system bob (Some 1) =
     Inr [OrderDict 1 1099.98 ''pending'' [''Gaming Laptop'', ''Wireless Headphones'']]
   \<and> view_orders system (alice\<lparr> u_id := 7 \<rparr>) (Some 1) =
     Inr [Str ''Access Denied: Can only view your own orders'']
   \<and> \<not> (\<forall>pid \<in> set (o_products (snd (hd (orders dangling_system)))).
          dict_get (products dangling_system) pid \<noteq> None)
   \<and> view_orders dangling_system (alice\<lparr> u_id := 7 \<rparr>) (Some 1) =
     Inr [Str ''Access Denied: Can only view your own orders'']"
proof -
  have present: "dict_get (orders system) 1 = Some (hd demo_orders)"
    by (simp add: demo_eval)
  have dangling: "dict_get (orders dangling_system) 1 = Some (snd (hd (orders dangling_system)))"
    by (simp add: dangling_system_def ECommerceSystem_init_def dict_of_def dict_get_def)
  have missing: "\<not> (\<forall>pid \<in> set (o_products (snd (hd (orders dangling_system)))).
          dict_get (products dangling_system) pid \<noteq> None)"
    by (simp add: dangling_system_def ECommerceSystem_init_def dict_of_def dict_get_def)
  have own: "view_orders system alice (Some 1) =
     Inr [OrderDict 1 1099.98 ''pending'' [''Gaming Laptop'', ''Wireless Headphones'']]"
    using view_orders_single_order_ownership [OF present, of alice]
    by (simp add: demo_eval alice_def)
  have all: "view_orders system bob (Some 1) =
     Inr [OrderDict 1 1099.98 ''pending'' [''Gaming Laptop'', ''Wireless Headphones'']]"
    using view_orders_single_order_ownership [OF present, of bob]
    by (simp add: demo_eval bob_def)
  have foreign: "view_orders system (alice\<lparr> u_id := 7 \<rparr>) (Some 1) =
     Inr [Str ''Access Denied: Can only view your own orders'']"
    using view_orders_single_order_ownership [OF present, of "alice\<lparr> u_id := 7 \<rparr>"]
    by (simp add: demo_eval alice_def)
  have foreign_dangling: "view_orders dangling_system (alice\<lparr> u_id := 7 \<rparr>) (Some 1) =
     Inr [Str ''Access Denied: Can only view your own orders'']"
    using view_orders_single_order_ownership [OF dangling, of "alice\<lparr> u_id := 7 \<rparr>"]
    by (simp add: dangling_system_def ECommerceSystem_init_def dict_of_def dict_get_def
        RBACSystem_init_def has_permission_def alice_def)
  from own all foreign missing foreign_dangling show ?thesis by blast
qed

text \<open>
  C7. For a caller holding \<^verbatim>\<open>view_own_orders\<close> or \<^verbatim>\<open>view_all_orders\<close>: an order id absent
  from the store yields the not-found result; an existing order of another principal,
  the caller lacking \<^verbatim>\<open>view_all_orders\<close>, yields the ownership denial; and the two results
  are different values.
\<close>

theorem view_orders_not_found_distinct_from_forbidden:
  assumes "has_permission (rbac sys) user ''view_all_orders'' \<or>
           has_permission (rbac sys) user ''view_own_orders''"
  shows "(dict_get (orders sys) oid = None \<longrightarrow>
            view_orders sys user (Some oid) = Inr [Str ''Order not found''])
       \<and> (dict_get (orders sys) oid' = Some order \<and> user_id order \<noteq> u_id user \<and>
            \<not> has_permission (rbac sys) user ''view_all_orders'' \<longrightarrow>
            view_orders sys user (Some oid') =
              Inr [Str ''Access Denied: Can only view your own orders''])
       \<and> (dict_get (orders sys) oid = None \<and>
            dict_get (orders sys) oid' = Some order \<and> user_id order \<noteq> u_id user \<and>
            \<not> has_permission (rbac sys) user ''view_all_orders'' \<longrightarrow>
            view_orders sys user (Some oid) \<noteq> view_orders sys user (Some oid'))"
  using assms by (auto simp: view_orders_def)

theorem view_orders_not_found_distinct_from_forbidden_witness:
  "view_orders system (alice\<lparr> u_id := 7 \<rparr>) (Some 5) = Inr [Str ''Order not found'']
   \<and> view_orders system (alice\<lparr> u_id := 7 \<rparr>) (Some 1) =
       Inr [Str ''Access Denied: Can only view your own orders'']
   \<and> view_orders system (alice\<lparr> u_id := 7 \<rparr>) (Some 5) \<noteq>
       view_orders system (alice\<lparr> u_id := 7 \<rparr>) (Some 1)"
proof -
  have gate: "has_permission (rbac system) (alice\<lparr> u_id := 7 \<rparr>) ''view_all_orders'' \<or>
              has_permission (rbac system) (alice\<lparr> u_id := 7 \<rparr>) ''view_own_orders''"
    by (simp add: demo_eval alice_def)
  have absent: "dict_get (orders system) 5 = None"
    by (simp add: demo_eval)
  have present: "dict_get (orders system) 1 = Some (hd demo_orders)"
    by (simp add: demo_eval)
  have other: "user_id (hd demo_orders) \<noteq> u_id (alice\<lparr> u_id := 7 \<rparr>)"
    by (simp add: demo_orders_def)
  have narrow: "\<not> has_permission (rbac system) (alice\<lparr> u_id := 7 \<rparr>) ''view_all_orders''"
    by (simp add: demo_eval alice_def)
  show ?thesis
    using view_orders_not_found_distinct_from_forbidden
      [OF gate, of 5 1 "hd demo_orders"] absent present other narrow
    by simp
qed

text \<open>
  C10. The not-found check comes before the ownership check: a caller holding
  \<^verbatim>\<open>view_own_orders\<close> who asks for an absent order id gets the not-found result, and for
  such a caller the result is the not-found result exactly when the id is absent, so the
  answer tells whether the id exists, also for orders of other principals.
\<close>

theorem view_orders_not_found_before_ownership:
  assumes "has_permission (rbac sys) user ''view_own_orders''"
  shows "(dict_get (orders sys) oid = None \<longrightarrow>
            view_orders sys user (Some oid) = Inr [Str ''Order not found''])
       \<and> ((view_orders sys user (Some oid) = Inr [Str ''Order not found'']) =
            (dict_get (orders sys) oid = None))"
  using assms order_dict_not_Str [of sys _ "''Order not found''"]
  by (auto simp: view_orders_def split: option.splits sum.splits)

theorem view_orders_not_found_before_ownership_witness:
  "has_permission (rbac system) (alice\<lparr> u_id := 7 \<rparr>) ''view_own_orders''
   \<and> \<not> has_permission (rbac system) (alice\<lparr> u_id := 7 \<rparr>) ''view_all_orders''
   \<and> view_orders system (alice\<lparr> u_id := 7 \<rparr>) (Some 5) = Inr [Str ''Order not found'']
   \<and> view_orders system (alice\<lparr> u_id := 7 \<rparr>) (Some 2) \<noteq> Inr [Str ''Order not found'']"
  using view_orders_not_found_before_ownership [of system "alice\<lparr> u_id := 7 \<rparr>" 5]
    view_orders_not_found_before_ownership [of system "alice\<lparr> u_id := 7 \<rparr>" 2]
  by (simp add: demo_eval alice_def)

text \<open>
  C3. Either-of semantics of \<open>vector_search\<close>: the method goes past the permission test
  (it calls the encoder, so its list of collaborator calls is not empty) exactly when the
  user's role holds \<^verbatim>\<open>vector_search_basic\<close> or \<^verbatim>\<open>vector_search_advanced\<close>, and it returns the
  denial exactly when the role holds neither, whatever else the role holds. A user whose
  only permission is \<^verbatim>\<open>vector_search_basic\<close> is let through.
\<close>

theorem vector_search_gate_either_of:
  "((snd (vector_search model sys user q top_k) \<noteq> []) =
      (has_permission (rbac sys) user ''vector_search_basic'' \<or>
       has_permission (rbac sys) user ''vector_search_advanced''))
   \<and> ((ModelEncode q \<in> set (snd (vector_search model sys user q top_k))) =
      (has_permission (rbac sys) user ''vector_search_basic'' \<or>
       has_permission (rbac sys) user ''vector_search_advanced''))
   \<and> ((fst (vector_search model sys user q top_k) =
        [Str ''Access Denied: No permission to perform vector search'']) =
      (\<not> (has_permission (rbac sys) user ''vector_search_basic'' \<or>
          has_permission (rbac sys) user ''vector_search_advanced'')))
   \<and> (get_user_permissions (rbac sys) user = {''vector_search_basic''} \<longrightarrow>
        ModelEncode q \<in> set (snd (vector_search model sys user q top_k)) \<and>
        fst (vector_search model sys user q top_k) \<noteq>
          [Str ''Access Denied: No permission to perform vector search''])"
proof -
  let ?gate = "has_permission (rbac sys) user ''vector_search_basic'' \<or>
               has_permission (rbac sys) user ''vector_search_advanced''"
  have calls: "(snd (vector_search model sys user q top_k) \<noteq> []) = ?gate"
    by (simp add: vector_search_def split: sum.splits)
  have enc: "(ModelEncode q \<in> set (snd (vector_search model sys user q top_k))) = ?gate"
    by (simp add: vector_search_def split: sum.splits)
  have res: "(fst (vector_search model sys user q top_k) =
        [Str ''Access Denied: No permission to perform vector search'']) = (\<not> ?gate)"
    using format_matches_not_denial
    by (auto simp: vector_search_def split: sum.splits)
  have only_basic: "get_user_permissions (rbac sys) user = {''vector_search_basic''} \<Longrightarrow> ?gate"
    by (auto simp: get_user_permissions_def has_permission_def split: option.splits)
  from calls enc res only_basic show ?thesis by blast
qed

theorem vector_search_gate_either_of_witness:
  "get_user_permissions (rbac searcher_system) (set_role ''searcher'' alice) = {''vector_search_basic''}
   \<and> ModelEncode ''laptop'' \<in>
        set (snd (vector_search demo_model searcher_system (set_role ''searcher'' alice) ''laptop'' 3))
   \<and> fst (vector_search demo_model searcher_system (set_role ''searcher'' alice) ''laptop'' 3) \<noteq>
        [Str ''Access Denied: No permission to perform vector search'']
   \<and> has_permission (rbac searcher_system) (set_role ''senior_sales_rep'' bob) ''view_all_orders''
   \<and> fst (vector_search demo_model searcher_system (set_role ''senior_sales_rep'' bob) ''laptop'' 3) =
        [Str ''Access Denied: No permission to perform vector search'']"
proof -
  have perms: "get_user_permissions (rbac searcher_system) (set_role ''searcher'' alice) =
      {''vector_search_basic''}"
    by (simp add: searcher_system_def get_user_permissions_def define_role_def set_role_def)
  have other: "has_permission (rbac searcher_system) (set_role ''senior_sales_rep'' bob)
      ''view_all_orders''"
    by (simp add: searcher_system_def has_permission_def define_role_def set_role_def
        senior_sales_rep_permissions_def)
  have neither: "\<not> (has_permission (rbac searcher_system) (set_role ''senior_sales_rep'' bob)
        ''vector_search_basic'' \<or>
      has_permission (rbac searcher_system) (set_role ''senior_sales_rep'' bob)
        ''vector_search_advanced'')"
    by (simp add: searcher_system_def has_permission_def define_role_def set_role_def
        senior_sales_rep_permissions_def)
  show ?thesis
    using vector_search_gate_either_of
      [of demo_model searcher_system "set_role ''searcher'' alice" "''laptop''" 3]
      vector_search_gate_either_of
      [of demo_model searcher_system "set_role ''senior_sales_rep'' bob" "''laptop''" 3]
      perms other neither
    by blast
qed

text \<open>
  C6. A denied request reaches no collaborator: when the role lacks both search
  permissions, \<open>vector_search\<close> returns the denial and has issued no call (neither
  \<^verbatim>\<open>model.encode\<close> nor \<^verbatim>\<open>vector_index.query\<close>); when the role lacks \<^verbatim>\<open>vector_create\<close>,
  \<open>create_vector\<close> returns the denial and has issued no call (neither \<^verbatim>\<open>model.encode\<close> nor
  \<^verbatim>\<open>vector_index.upsert\<close>). The denial is the returned value; nothing is raised.
\<close>

theorem denied_request_issues_no_collaborator_call:
  "(\<not> (has_permission (rbac sys) user ''vector_search_basic'' \<or>
        has_permission (rbac sys) user ''vector_search_advanced'') \<longrightarrow>
      vector_search model sys user q top_k =
        ([Str ''Access Denied: No permission to perform vector search''], []))
   \<and> (\<not> has_permission (vm_rbac vm) user' ''vector_create'' \<longrightarrow>
      create_vector model uuid vm user' data md =
        (''Access Denied: No permission to create vectors'', []))"
  by (simp add: vector_search_def create_vector_def)

theorem denied_request_issues_no_collaborator_call_witness:
  "vector_search demo_model searcher_system (set_role ''senior_sales_rep'' bob) ''laptop'' 3 =
     ([Str ''Access Denied: No permission to perform vector search''], [])
   \<and> create_vector demo_model ''u-1'' vector_mgmt alice ''New gaming monitor'' [] =
     (''Access Denied: No permission to create vectors'', [])
   \<and> snd (create_vector demo_model ''u-1'' vector_mgmt carol ''New gaming monitor'' []) =
     [ModelEncode ''New gaming monitor'', IndexUpsert [(''u-1'', [1, 0], [])]]"
proof -
  have neither: "\<not> (has_permission (rbac searcher_system) (set_role ''senior_sales_rep'' bob)
        ''vector_search_basic'' \<or>
      has_permission (rbac searcher_system) (set_role ''senior_sales_rep'' bob)
        ''vector_search_advanced'')"
    by (simp add: searcher_system_def has_permission_def define_role_def set_role_def
        senior_sales_rep_permissions_def)
  have no_create: "\<not> has_permission (vm_rbac vector_mgmt) alice ''vector_create''"
    by (simp add: vector_mgmt_def has_permission_def RBACSystem_init_def alice_def)
  have permitted: "snd (create_vector demo_model ''u-1'' vector_mgmt carol ''New gaming monitor'' []) =
     [ModelEncode ''New gaming monitor'', IndexUpsert [(''u-1'', [1, 0], [])]]"
    by (simp add: create_vector_def vector_mgmt_def has_permission_def RBACSystem_init_def
        carol_def demo_model_def demo_index_def)
  show ?thesis
    using denied_request_issues_no_collaborator_call
      [of searcher_system "set_role ''senior_sales_rep'' bob" demo_model "''laptop''" 3
          vector_mgmt alice "''u-1''" "''New gaming monitor''" "[]"]
      neither no_create permitted
    by simp
qed

text \<open>
  C4. Assigning a role's permission set replaces it: after \<^verbatim>\<open>role_permissions[r] = s1\<close> and
  then \<^verbatim>\<open>role_permissions[r] = s2\<close>, the role \<open>r\<close> maps to exactly \<open>s2\<close>, a user of role \<open>r\<close>
  holds exactly the permissions of \<open>s2\<close>, and the registry is the one that a single
  assignment of \<open>s2\<close> gives: nothing of \<open>s1\<close> survives. The registry is a map, so a role
  name has one permission set at a time.
\<close>

theorem define_role_replaces:
  "role_permissions (define_role r s2 (define_role r s1 reg)) r = Some s2
   \<and> get_user_permissions (define_role r s2 (define_role r s1 reg)) (set_role r user) = s2
   \<and> has_permission (define_role r s2 (define_role r s1 reg)) (set_role r user) p = (p \<in> s2)
   \<and> define_role r s2 (define_role r s1 reg) = define_role r s2 reg"
  by (simp add: define_role_def get_user_permissions_def has_permission_def set_role_def)

theorem define_role_replaces_witness:
  "get_user_permissions
     (define_role ''auditor'' {''view_products''}
        (define_role ''auditor'' {''view_products'', ''view_all_orders''} RBACSystem_init))
     (set_role ''auditor'' alice) = {''view_products''}
   \<and> \<not> has_permission
     (define_role ''auditor'' {''view_products''}
        (define_role ''auditor'' {''view_products'', ''view_all_orders''} RBACSystem_init))
     (set_role ''auditor'' alice) ''view_all_orders''"
proof -
  note inst = define_role_replaces [of "''auditor''" "{''view_products''}"
      "{''view_products'', ''view_all_orders''}" RBACSystem_init alice "''view_all_orders''"]
  from inst have perms: "get_user_permissions
     (define_role ''auditor'' {''view_products''}
        (define_role ''auditor'' {''view_products'', ''view_all_orders''} RBACSystem_init))
     (set_role ''auditor'' alice) = {''view_products''}"
    by blast
  from inst have dec: "has_permission
     (define_role ''auditor'' {''view_products''}
        (define_role ''auditor'' {''view_products'', ''view_all_orders''} RBACSystem_init))
     (set_role ''auditor'' alice) ''view_all_orders'' =
       (''view_all_orders'' \<in> {''view_products''})"
    by blast
  from perms dec show ?thesis by simp
qed

text \<open>
  C9, against \<open>grant\<close> as modelled from the spec. Granting is idempotent: granting \<open>x\<close> to
  \<open>r\<close> twice gives the same registry, and the same set for \<open>r\<close>, as granting it once; the
  set after a grant is the set before with \<open>x\<close> inserted; and when \<open>r\<close> already holds \<open>x\<close>
  the grant changes neither the set of \<open>r\<close> nor the registry.
\<close>

theorem grant_idempotent:
  "grant r x (grant r x reg) = grant r x reg
   \<and> get_user_permissions (grant r x (grant r x reg)) (set_role r user) =
       get_user_permissions (grant r x reg) (set_role r user)
   \<and> get_user_permissions (grant r x reg) (set_role r user) =
       insert x (get_user_permissions reg (set_role r user))
   \<and> (x \<in> get_user_permissions reg (set_role r user) \<longrightarrow>
        get_user_permissions (grant r x reg) (set_role r user) =
          get_user_permissions reg (set_role r user) \<and> grant r x reg = reg)"
proof -
  have twice: "grant r x (grant r x reg) = grant r x reg"
    by (simp add: grant_def)
  have after: "get_user_permissions (grant r x reg) (set_role r user) =
       insert x (get_user_permissions reg (set_role r user))"
    by (simp add: grant_def get_user_permissions_def set_role_def)
  have held: "grant r x reg = reg" if "x \<in> get_user_permissions reg (set_role r user)"
  proof -
    from that obtain perms where p: "role_permissions reg r = Some perms" "x \<in> perms"
      by (auto simp: get_user_permissions_def set_role_def split: option.splits)
    then have "(role_permissions reg)(r \<mapsto> insert x perms) = role_permissions reg"
      by (auto simp: insert_absorb)
    with p show ?thesis by (simp add: grant_def)
  qed
  from twice after held show ?thesis by (auto simp: insert_absorb)
qed

theorem grant_idempotent_witness:
  "''view_products'' \<in> get_user_permissions RBACSystem_init (set_role ''customer'' alice)
   \<and> get_user_permissions (grant ''customer'' ''view_products'' RBACSystem_init)
        (set_role ''customer'' alice) =
      get_user_permissions RBACSystem_init (set_role ''customer'' alice)
   \<and> grant ''customer'' ''view_products'' RBACSystem_init = RBACSystem_init
   \<and> get_user_permissions (grant ''intern'' ''view_products'' (grant ''intern'' ''view_products'' RBACSystem_init))
        (set_role ''intern'' alice) = {''view_products''}"
proof -
  have held: "''view_products'' \<in> get_user_permissions RBACSystem_init (set_role ''customer'' alice)"
    by (simp add: get_user_permissions_def RBACSystem_init_def set_role_def)
  have none: "get_user_permissions RBACSystem_init (set_role ''intern'' alice) = {}"
    by (simp add: get_user_permissions_def RBACSystem_init_def set_role_def)
  show ?thesis
    using grant_idempotent [of "''customer''" "''view_products''" RBACSystem_init alice]
      grant_idempotent [of "''intern''" "''view_products''" RBACSystem_init alice] held none
    by simp
qed

text \<open>
  C8. \<open>update_stock\<close> asks for \<^verbatim>\<open>update_product_stock\<close> only and changes nothing when it
  fails. With the permission and an existing product id, the product under that id has
  its stock set to the new value, every other key keeps its product, the keys and the
  registry stay as they were, and the success message is returned. Without the permission
  the denial is returned, with the permission and an unknown id the not-found message, and
  in both cases the facade is unchanged. The facade differs after the call only if the
  permission is held and the product id exists.
\<close>

theorem update_stock_permission_and_atomicity:
  "(has_permission (inv_rbac im) user ''update_product_stock'' \<and>
    dict_get (inv_products im) product_id = Some p \<longrightarrow>
      fst (update_stock im user product_id new_stock) =
        ''Stock updated successfully for '' @ name p
      \<and> (\<forall>k. dict_get (inv_products (snd (update_stock im user product_id new_stock))) k =
            (if k = product_id then Some (p\<lparr> stock := new_stock \<rparr>)
             else dict_get (inv_products im) k))
      \<and> map fst (inv_products (snd (update_stock im user product_id new_stock))) =
          map fst (inv_products im)
      \<and> inv_rbac (snd (update_stock im user product_id new_stock)) = inv_rbac im)
   \<and> (\<not> has_permission (inv_rbac im) user ''update_product_stock'' \<longrightarrow>
      update_stock im user product_id new_stock =
        (''Access Denied: No permission to update stock'', im))
   \<and> (has_permission (inv_rbac im) user ''update_product_stock'' \<and>
      dict_get (inv_products im) product_id = None \<longrightarrow>
      update_stock im user product_id new_stock = (''Product not found'', im))
   \<and> (snd (update_stock im user product_id new_stock) \<noteq> im \<longrightarrow>
      has_permission (inv_rbac im) user ''update_product_stock'' \<and>
      dict_get (inv_products im) product_id \<noteq> None)"
  by (auto simp: update_stock_def dict_get_dict_set keys_dict_set_present split: option.splits)

theorem update_stock_permission_and_atomicity_witness:
  "fst (update_stock inventory david 2 45) = ''Stock updated successfully for Smartphone Pro''
   \<and> map (\<lambda>(k, p). (k, stock p)) (inv_products (snd (update_stock inventory david 2 45))) =
       [(1, 50), (2, 45), (3, 200)]
   \<and> update_stock inventory alice 2 45 =
       (''Access Denied: No permission to update stock'', inventory)
   \<and> update_stock inventory david 9 45 = (''Product not found'', inventory)"
proof -
  have admin: "has_permission (inv_rbac inventory) david ''update_product_stock''"
    by (simp add: inventory_def InventoryManagement_init_def has_permission_def
        RBACSystem_init_def david_def)
  have customer: "\<not> has_permission (inv_rbac inventory) alice ''update_product_stock''"
    by (simp add: inventory_def InventoryManagement_init_def has_permission_def
        RBACSystem_init_def alice_def)
  have present: "dict_get (inv_products inventory) 2 = Some (demo_products ! 1)"
    by (simp add: inventory_def InventoryManagement_init_def dict_of_def dict_get_def
        demo_products_def)
  have absent: "dict_get (inv_products inventory) 9 = None"
    by (simp add: inventory_def InventoryManagement_init_def dict_of_def dict_get_def
        demo_products_def)
  have stocks: "map (\<lambda>(k, p). (k, stock p)) (inv_products (snd (update_stock inventory david 2 45))) =
       [(1, 50), (2, 45), (3, 200)]"
    using admin
    by (simp add: update_stock_def inventory_def InventoryManagement_init_def dict_of_def
        dict_get_def demo_products_def)
  have nm: "name (demo_products ! 1) = ''Smartphone Pro''"
    by (simp add: demo_products_def)
  show ?thesis
    using update_stock_permission_and_atomicity [of inventory david 2 "demo_products ! 1" 45]
      update_stock_permission_and_atomicity [of inventory alice 2 "demo_products ! 1" 45]
      update_stock_permission_and_atomicity [of inventory david 9 "demo_products ! 1" 45]
      admin customer present absent stocks nm
    by simp
qed

text \<open>
  C5. Role promotion is immediate and only prospective. Let the script have run the
  statements \<open>pre\<close>, with decisions \<open>ds\<close>, and let user \<open>a\<close> then lack permission \<open>x\<close> while
  role \<open>r\<close> is defined with \<open>x\<close> in its set. Then \<open>has_permission\<close> on the user with role
  \<open>r\<close> is true; the very next decision after \<^verbatim>\<open>user.role = r\<close> is true, where without the
  assignment it is false; and the decisions made before the assignment are the same
  whatever follows. A decision is a function of the registry and of the user's role at
  the time of the call: the session has no other state, so nothing is cached.
\<close>

theorem role_promotion_immediate_and_prospective:
  assumes before: "run s0 pre = (s, ds)"
    and lacking: "\<not> has_permission (s_rbac s) (s_users s a) x"
    and defined: "role_permissions (s_rbac s) r = Some perms"
    and member: "x \<in> perms"
  shows "has_permission (s_rbac s) (set_role r (s_users s a)) x
       \<and> snd (run s0 (pre @ [HasPermission a x])) = ds @ [False]
       \<and> snd (run s0 (pre @ [AssignRole a r, HasPermission a x])) = ds @ [True]
       \<and> snd (run s0 (pre @ [HasPermission a x, AssignRole a r, HasPermission a x])) =
           ds @ [False, True]
       \<and> take (length ds) (snd (run s0 (pre @ AssignRole a r # post))) = ds"
proof -
  have now: "has_permission (s_rbac s) (set_role r (s_users s a)) x"
    using defined member by (simp add: has_permission_def set_role_def)
  have r0: "snd (run s0 (pre @ [HasPermission a x])) = ds @ [False]"
    using before lacking by (simp add: run_append)
  have r1: "snd (run s0 (pre @ [AssignRole a r, HasPermission a x])) = ds @ [True]"
    using before now by (simp add: run_append)
  have r2: "snd (run s0 (pre @ [HasPermission a x, AssignRole a r, HasPermission a x])) =
      ds @ [False, True]"
    using before lacking now by (simp add: run_append)
  have r3: "take (length ds) (snd (run s0 (pre @ AssignRole a r # post))) = ds"
    using before by (simp add: run_append split: prod.splits)
  from now r0 r1 r2 r3 show ?thesis by simp
qed

theorem role_promotion_immediate_and_prospective_witness:
  "snd (run demo_session
      [HasPermission 0 ''view_products'', HasPermission 0 ''vector_manage_index'',
       AssignRole 0 ''admin'', HasPermission 0 ''vector_manage_index'']) =
     [True, False, True]"
proof -
  have before: "run demo_session [HasPermission 0 ''view_products''] = (demo_session, [True])"
    by (simp add: demo_session_def has_permission_def RBACSystem_init_def alice_def)
  have lacking: "\<not> has_permission (s_rbac demo_session) (s_users demo_session 0)
      ''vector_manage_index''"
    by (simp add: demo_session_def has_permission_def RBACSystem_init_def alice_def)
  have defined: "role_permissions (s_rbac demo_session) ''admin'' =
      Some (the (role_permissions RBACSystem_init ''admin''))"
    by (simp add: demo_session_def RBACSystem_init_def)
  have member: "''vector_manage_index'' \<in> the (role_permissions RBACSystem_init ''admin'')"
    by (simp add: RBACSystem_init_def)
  show ?thesis
    using role_promotion_immediate_and_prospective [OF before lacking defined member, of "[]"]
    by simp
qed

end
